theory Spec2Isabelle
  imports Main "HOL-Library.Sublist" "HOL-Library.AList" "HOL-Library.List_Lexorder"
    "HOL-Library.Char_ord"
begin

section \<open>The Bittrex gateway (catalyst/exchange/bittrex/bittrex.py)\<close>

subsection \<open>Remote replies, errors and the call trace\<close>

text \<open>
  The reply of \<open>api.buylimit\<close> / \<open>api.selllimit\<close> is used by \<open>create_order\<close> both as a
  dictionary (\<open>'uuid' in order_status\<close>, \<open>order_status['uuid']\<close>) and as a plain message
  (\<open>order_status == 'INSUFFICIENT_FUNDS'\<close>), so it is either of the two; likewise the
  reply of \<open>api.cancel\<close>.
\<close>

datatype api_reply = Reply_dict "(string \<times> string) list" | Reply_msg string

text \<open>Python's \<open>key in reply\<close>: a key of the dictionary, or a substring of the message.\<close>

fun key_in :: "string \<Rightarrow> api_reply \<Rightarrow> bool" where
  "key_in k (Reply_dict d) = (k \<in> fst ` set d)"
| "key_in k (Reply_msg s) = sublist k s"

text \<open>
  Every exception the modelled code can raise. A failure of the remote transport is
  described by a string; \<open>Raised\<close> is such a failure that no handler wraps.
\<close>

datatype error =
    ExchangeRequestError string
  | InvalidHistoryFrequencyError string
  | InvalidOrderStyle string string
  | CreateOrderError string api_reply
  | OrderNotFound string string
  | OrderCancelError string string string
  | NoDataAvailableOnExchange string "string list" string
  | KeyError string
  | IndexError
  | TypeError
  | ValueError string
  | UnboundLocalError string
  | Exception string
  | Raised string

text \<open>
  What an operation does to the outside world, in order: a call of \<open>self.ask_request()\<close>
  (the rate limiter, defined in the base class) or a request sent to the remote.
\<close>

datatype 'n request =
    Getbalances
  | Buylimit string 'n "'n option"
  | Selllimit string 'n "'n option"
  | Getopenorders string
  | Getorder string
  | Cancel string
  | Getticker string
  | Getorderbook string string nat
  | Urlopen string

datatype 'n event = Ask_request | Remote "'n request"

type_synonym ('n, 'r) outcome = "'n event list \<times> (error + 'r)"

text \<open>Python's \<open>reply[key]\<close>; a string cannot be indexed by a key.\<close>

fun subscript :: "api_reply \<Rightarrow> string \<Rightarrow> error + string" where
  "subscript (Reply_dict d) k = (case map_of d k of None \<Rightarrow> Inl (KeyError k) | Some v \<Rightarrow> Inr v)"
| "subscript (Reply_msg s) k = Inl TypeError"

subsection \<open>Orders\<close>

datatype ORDER_STATUS = OPEN | FILLED | CANCELLED

text \<open>
  The fields \<open>Order(...)\<close> is given by this module, plus \<open>status\<close>. A field the caller
  does not pass, and a status this module does not assign, is \<open>None\<close>: the constructor's
  own default applies there.
\<close>

record ('a, 'n, 't) order =
  dt :: 't
  asset :: 'a
  amount :: 'n
  stop :: "'n option"
  limit :: "'n option"
  filled :: "'n option"
  order_id :: string
  commission :: "'n option"
  status :: "ORDER_STATUS option"

text \<open>One order record as the remote reports it (the keys \<open>_create_order\<close> reads).\<close>

record 'n order_status =
  OrderUuid :: string
  Exchange :: string
  Quantity :: 'n
  QuantityRemaining :: 'n
  Limit :: "'n option"
  CommissionPaid :: "'n option"
  PricePerUnit :: "'n option"
  CancelInitiated :: bool
  Opened :: string
  Closed :: "string option"

text \<open>
  \<open>_create_order\<close> (an Isabelle name cannot start with an underscore). \<open>assets\<close> is
  \<open>self.assets\<close>, \<open>to_datetime\<close> is \<open>pd.to_datetime(_, utc=True)\<close>.
\<close>

definition internal_create_order ::
  "(string \<rightharpoonup> 'a) \<Rightarrow> (string \<Rightarrow> 't) \<Rightarrow> ('n::minus) order_status
     \<Rightarrow> error + (('a, 'n, 't) order \<times> 'n option)" where
  "internal_create_order assets to_datetime order_status =
     (let st = (if CancelInitiated order_status then CANCELLED
                else if Closed order_status \<noteq> None then FILLED
                else OPEN);
          date = to_datetime (Opened order_status);
          amount = Quantity order_status;
          filled = amount - QuantityRemaining order_status
      in case assets (Exchange order_status) of
           None \<Rightarrow> Inl (KeyError (Exchange order_status))
         | Some a \<Rightarrow>
             Inr (\<lparr>dt = date, asset = a, amount = amount, stop = None,
                   limit = Limit order_status, filled = Some filled,
                   order_id = OrderUuid order_status,
                   commission = CommissionPaid order_status,
                   status = Some st\<rparr>,
                  PricePerUnit order_status))"

text \<open>The loop of \<open>get_open_orders\<close>: \<open>orders\<close> is the list built so far.\<close>

fun open_orders_loop ::
  "(string \<rightharpoonup> 'a) \<Rightarrow> (string \<Rightarrow> 't) \<Rightarrow> ('n::minus) order_status list
     \<Rightarrow> (('a, 'n, 't) order \<times> 'n option) list
     \<Rightarrow> error + (('a, 'n, 't) order \<times> 'n option) list" where
  "open_orders_loop assets to_datetime [] orders = Inr orders"
| "open_orders_loop assets to_datetime (order_status # rest) orders =
     (case internal_create_order assets to_datetime order_status of
        Inl e \<Rightarrow> Inl e
      | Inr order \<Rightarrow> open_orders_loop assets to_datetime rest (orders @ [order]))"

text \<open>
  \<open>get_symbol\<close> is the base class's symbol lookup and \<open>getopenorders\<close> the remote call;
  a remote call answers \<open>Inl\<close> when it raises.
\<close>

definition get_open_orders ::
  "('a \<Rightarrow> string) \<Rightarrow> (string \<rightharpoonup> 'a) \<Rightarrow> (string \<Rightarrow> 't)
     \<Rightarrow> (string \<Rightarrow> string + ('n::minus) order_status list) \<Rightarrow> 'a
     \<Rightarrow> ('n, (('a, 'n, 't) order \<times> 'n option) list) outcome" where
  "get_open_orders get_symbol assets to_datetime getopenorders a =
     (let symbol = get_symbol a;
          trace = [Ask_request, Remote (Getopenorders symbol)]
      in case getopenorders symbol of
           Inl e \<Rightarrow> (trace, Inl (ExchangeRequestError e))
         | Inr open_orders \<Rightarrow>
             (trace, open_orders_loop assets to_datetime open_orders []))"

text \<open>\<open>getorder\<close> answers \<open>None\<close> when the remote knows no such order.\<close>

definition get_order ::
  "string \<Rightarrow> (string \<rightharpoonup> 'a) \<Rightarrow> (string \<Rightarrow> 't)
     \<Rightarrow> (string \<Rightarrow> string + ('n::minus) order_status option) \<Rightarrow> string
     \<Rightarrow> ('n, ('a, 'n, 't) order \<times> 'n option) outcome" where
  "get_order name assets to_datetime getorder oid =
     (let trace = [Ask_request, Remote (Getorder oid)]
      in case getorder oid of
           Inl e \<Rightarrow> (trace, Inl (ExchangeRequestError e))
         | Inr None \<Rightarrow> (trace, Inl (OrderNotFound oid name))
         | Inr (Some order_status) \<Rightarrow>
             (trace, internal_create_order assets to_datetime order_status))"

subsection \<open>Placing and cancelling orders\<close>

text \<open>
  The execution styles: the two \<open>create_order\<close> accepts, and any other class, known by
  its class name. \<open>get_limit_price\<close> and \<open>get_stop_price\<close> are methods of the style
  classes, defined outside this module, and stay parameters.
\<close>

datatype 'n style =
    is_LimitOrder: LimitOrder 'n
  | is_StopLimitOrder: StopLimitOrder 'n 'n
  | OtherStyle string

text \<open>\<open>style.__class__.__name__\<close>.\<close>

fun class_name :: "'n style \<Rightarrow> string" where
  "class_name (LimitOrder _) = ''LimitOrder''"
| "class_name (StopLimitOrder _ _) = ''StopLimitOrder''"
| "class_name (OtherStyle c) = c"

definition create_order ::
  "string \<Rightarrow> ('a \<Rightarrow> string) \<Rightarrow> ('n style \<Rightarrow> bool \<Rightarrow> 'n option)
     \<Rightarrow> ('n style \<Rightarrow> bool \<Rightarrow> 'n option) \<Rightarrow> 't
     \<Rightarrow> (('n::abs) request \<Rightarrow> string + api_reply)
     \<Rightarrow> 'a \<Rightarrow> 'n \<Rightarrow> bool \<Rightarrow> 'n style
     \<Rightarrow> ('n, ('a, 'n, 't) order option) outcome" where
  "create_order name get_symbol get_limit_price get_stop_price utcnow api a amount' is_buy style =
     (let exchange_symbol = get_symbol a
      in if is_LimitOrder style \<or> is_StopLimitOrder style then
           (let price = get_limit_price style is_buy;
                req = (if is_buy then Buylimit exchange_symbol amount' price
                       else Selllimit exchange_symbol (abs amount') price);
                trace = [Ask_request, Remote req]
            in case api req of
                 Inl e \<Rightarrow> (trace, Inl (ExchangeRequestError e))
               | Inr order_status \<Rightarrow>
                   if key_in ''uuid'' order_status then
                     (case subscript order_status ''uuid'' of
                        Inl e \<Rightarrow> (trace, Inl e)
                      | Inr oid \<Rightarrow>
                          (trace, Inr (Some \<lparr>dt = utcnow, asset = a, amount = amount',
                             stop = get_stop_price style is_buy,
                             limit = get_limit_price style is_buy,
                             filled = None, order_id = oid, commission = None,
                             status = None\<rparr>)))
                   else if order_status = Reply_msg ''INSUFFICIENT_FUNDS'' then
                     (trace, Inr None)
                   else if order_status = Reply_msg ''DUST_TRADE_DISALLOWED_MIN_VALUE_50K_SAT'' then
                     (trace, Inr None)
                   else (trace, Inl (CreateOrderError name order_status)))
         else ([], Inl (InvalidOrderStyle name (class_name style))))"

datatype ('a, 'n, 't) order_param = By_order "('a, 'n, 't) order" | By_id string

definition cancel_order ::
  "string \<Rightarrow> (string \<Rightarrow> string + api_reply) \<Rightarrow> ('a, 'n, 't) order_param
     \<Rightarrow> ('n, unit) outcome" where
  "cancel_order name cancel order_param =
     (let oid = (case order_param of By_order ord \<Rightarrow> order_id ord | By_id i \<Rightarrow> i);
          trace = [Ask_request, Remote (Cancel oid)]
      in case cancel oid of
           Inl e \<Rightarrow> (trace, Inl (ExchangeRequestError e))
         | Inr st \<Rightarrow>
             if key_in ''message'' st then
               (case subscript st ''message'' of
                  Inl e \<Rightarrow> (trace, Inl e)
                | Inr m \<Rightarrow> (trace, Inl (OrderCancelError oid name m)))
             else (trace, Inr ()))"

subsection \<open>Balances and tickers\<close>

text \<open>\<open>str.lower\<close> on the ASCII letters; other bytes are left as they are.\<close>

definition lower :: "string \<Rightarrow> string" where
  "lower s = map (\<lambda>c. let n = (of_char c :: nat)
                       in if 65 \<le> n \<and> n \<le> 90 then char_of (n + 32) else c) s"

record 'n balance =
  Currency :: string
  Available :: "'n option"

text \<open>
  \<open>api.getbalances\<close> answers a list of balance records, or a message. Iterating over a
  message yields its characters, and \<open>balance['Currency']\<close> on a character is the
  \<open>TypeError\<close> the second handler of \<open>get_balances\<close> catches.
\<close>

datatype 'n balances_reply = Balances "'n balance list" | Balances_msg string

definition get_balances ::
  "(string + 'n balances_reply) \<Rightarrow> ('n, (string \<times> 'n option) list) outcome" where
  "get_balances getbalances =
     (let trace = [Ask_request, Remote Getbalances]
      in case getbalances of
           Inl e \<Rightarrow> (trace, Inl (ExchangeRequestError e))
         | Inr (Balances_msg s) \<Rightarrow>
             if s = [] then (trace, Inr []) else (trace, Inl (ExchangeRequestError s))
         | Inr (Balances balances) \<Rightarrow>
             (trace, Inr (fold (\<lambda>b std_balances.
                            AList.update (lower (Currency b)) (Available b) std_balances)
                          balances [])))"

record 'n ticker =
  Bid :: "'n option"
  Ask :: "'n option"
  Last :: "'n option"

record ('n, 't) tick =
  timestamp :: 't
  bid :: "'n option"
  ask :: "'n option"
  last_price :: "'n option"

fun tickers_loop ::
  "('a \<Rightarrow> string) \<Rightarrow> 't \<Rightarrow> (string \<Rightarrow> string + 'n ticker) \<Rightarrow> 'a list
     \<Rightarrow> 'n event list \<Rightarrow> ('a \<times> ('n, 't) tick) list
     \<Rightarrow> ('n, ('a \<times> ('n, 't) tick) list) outcome" where
  "tickers_loop get_symbol utcnow getticker [] trace ticks = (trace, Inr ticks)"
| "tickers_loop get_symbol utcnow getticker (a # rest) trace ticks =
     (let symbol = get_symbol a;
          trace' = trace @ [Ask_request, Remote (Getticker symbol)]
      in case getticker symbol of
           Inl e \<Rightarrow> (trace', Inl (ExchangeRequestError e))
         | Inr ticker \<Rightarrow>
             tickers_loop get_symbol utcnow getticker rest trace'
               (AList.update a \<lparr>timestamp = utcnow, bid = Bid ticker, ask = Ask ticker,
                                last_price = Last ticker\<rparr> ticks))"

definition tickers ::
  "('a \<Rightarrow> string) \<Rightarrow> 't \<Rightarrow> (string \<Rightarrow> string + 'n ticker) \<Rightarrow> 'a list
     \<Rightarrow> ('n, ('a \<times> ('n, 't) tick) list) outcome" where
  "tickers get_symbol utcnow getticker assets =
     tickers_loop get_symbol utcnow getticker assets [] []"

subsection \<open>Candles\<close>

definition URL2 :: string where
  "URL2 = ''https://bittrex.com/Api/v2.0''"

definition candle_frequency :: "string \<Rightarrow> error + string" where
  "candle_frequency data_frequency =
     (if data_frequency = ''minute'' \<or> data_frequency = ''1m'' then Inr ''oneMin''
      else if data_frequency = ''5m'' then Inr ''fiveMin''
      else if data_frequency = ''30m'' then Inr ''thirtyMin''
      else if data_frequency = ''1h'' then Inr ''hour''
      else if data_frequency = ''daily'' \<or> data_frequency = ''1D'' then Inr ''day''
      else Inl (InvalidHistoryFrequencyError data_frequency))"

definition ticks_url :: "string \<Rightarrow> string \<Rightarrow> string" where
  "ticks_url symbol frequency =
     URL2 @ ''/pub/market/GetTicks?marketName='' @ symbol
       @ ''&tickInterval='' @ frequency @ ''&_=1499127220008''"

text \<open>A candle of the remote (keys \<open>O H L C V T\<close>) and the decoded JSON document.\<close>

record 'n candle =
  candle_O :: 'n
  candle_H :: 'n
  candle_L :: 'n
  candle_C :: 'n
  candle_V :: 'n
  candle_T :: string

record 'n tick_data =
  tick_message :: "string option"
  tick_result :: "'n candle list option"

record ('n, 't) ohlc =
  ohlc_open :: 'n
  ohlc_high :: 'n
  ohlc_low :: 'n
  ohlc_close :: 'n
  ohlc_volume :: 'n
  ohlc_price :: 'n
  ohlc_last_traded :: 't

definition ohlc_from_candle :: "(string \<Rightarrow> 't) \<Rightarrow> 'n candle \<Rightarrow> ('n, 't) ohlc" where
  "ohlc_from_candle to_datetime candle =
     \<lparr>ohlc_open = candle_O candle, ohlc_high = candle_H candle, ohlc_low = candle_L candle,
      ohlc_close = candle_C candle, ohlc_volume = candle_V candle,
      ohlc_price = candle_C candle, ohlc_last_traded = to_datetime (candle_T candle)\<rparr>"

text \<open>Python's \<open>xs[:k]\<close>: a negative \<open>k\<close> counts from the end.\<close>

definition slice_to :: "'a list \<Rightarrow> int \<Rightarrow> 'a list" where
  "slice_to xs k =
     (if 0 \<le> k then take (nat k) xs else take (length xs - nat (- k)) xs)"

text \<open>The value stored for one asset: one bar, or a list of bars.\<close>

datatype ('n, 't) bars = One "('n, 't) ohlc" | Bars "('n, 't) ohlc list"

text \<open>
  The body of the loop of \<open>get_candles\<close> after the document has been fetched.
  \<open>if data['message']\<close> holds for a message that is neither \<open>None\<close> nor empty;
  \<open>reversed(None)\<close> is a \<open>TypeError\<close> and \<open>ordered_candles[0]\<close> of an empty list an
  \<open>IndexError\<close>.
\<close>

definition asset_candles ::
  "(string \<Rightarrow> 't) \<Rightarrow> int option \<Rightarrow> 'n tick_data \<Rightarrow> error + ('n, 't) bars" where
  "asset_candles to_datetime bar_count data =
     (case tick_message data of
        Some (c # cs) \<Rightarrow>
          Inl (ExchangeRequestError (''Unable to fetch candles '' @ c # cs))
      | _ \<Rightarrow>
        (case tick_result data of
           None \<Rightarrow> Inl TypeError
         | Some candles \<Rightarrow>
             (let ordered_candles = rev candles
              in case bar_count of
                   None \<Rightarrow>
                     (case ordered_candles of
                        [] \<Rightarrow> Inl IndexError
                      | first # _ \<Rightarrow> Inr (One (ohlc_from_candle to_datetime first)))
                 | Some k \<Rightarrow>
                     Inr (Bars (map (ohlc_from_candle to_datetime)
                                  (slice_to ordered_candles k))))))"

fun candles_loop ::
  "(string \<Rightarrow> 't) \<Rightarrow> ('a \<Rightarrow> string) \<Rightarrow> (string \<Rightarrow> string + 'n tick_data)
     \<Rightarrow> string \<Rightarrow> int option \<Rightarrow> 'a list \<Rightarrow> 'n event list
     \<Rightarrow> ('a \<times> ('n, 't) bars) list \<Rightarrow> ('n, ('a \<times> ('n, 't) bars) list) outcome" where
  "candles_loop to_datetime get_symbol urlopen frequency bar_count [] trace ohlc_map =
     (trace, Inr ohlc_map)"
| "candles_loop to_datetime get_symbol urlopen frequency bar_count (a # rest) trace ohlc_map =
     (let url = ticks_url (get_symbol a) frequency;
          trace' = trace @ [Remote (Urlopen url)]
      in case urlopen url of
           Inl e \<Rightarrow> (trace', Inl (ExchangeRequestError e))
         | Inr data \<Rightarrow>
             (case asset_candles to_datetime bar_count data of
                Inl e \<Rightarrow> (trace', Inl e)
              | Inr b \<Rightarrow>
                  candles_loop to_datetime get_symbol urlopen frequency bar_count rest trace'
                    (AList.update a b ohlc_map)))"

text \<open>The \<open>assets\<close> argument: one \<open>TradingPair\<close>, or an iterable of them.\<close>

datatype 'a assets_arg = TradingPair 'a | Asset_list "'a list"

datatype ('a, 'n, 't) candles = Single "('n, 't) bars" | Per_asset "('a \<times> ('n, 't) bars) list"

definition get_candles ::
  "(string \<Rightarrow> 't) \<Rightarrow> ('a \<Rightarrow> string) \<Rightarrow> (string \<Rightarrow> string + 'n tick_data)
     \<Rightarrow> string \<Rightarrow> 'a assets_arg \<Rightarrow> int option \<Rightarrow> 't option
     \<Rightarrow> ('n, ('a, 'n, 't) candles) outcome" where
  "get_candles to_datetime get_symbol urlopen data_frequency assets bar_count start_date =
     (case candle_frequency data_frequency of
        Inl e \<Rightarrow> ([], Inl e)
      | Inr frequency \<Rightarrow>
        (let asset_list = (case assets of TradingPair a \<Rightarrow> [a] | Asset_list l \<Rightarrow> l)
         in case candles_loop to_datetime get_symbol urlopen frequency bar_count
                   asset_list [] [] of
              (trace, Inl e) \<Rightarrow> (trace, Inl e)
            | (trace, Inr ohlc_map) \<Rightarrow>
                (case assets of
                   TradingPair a \<Rightarrow>
                     (case map_of ohlc_map a of
                        None \<Rightarrow> (trace, Inl (KeyError (get_symbol a)))
                      | Some b \<Rightarrow> (trace, Inr (Single b)))
                 | Asset_list l \<Rightarrow> (trace, Inr (Per_asset ohlc_map)))))"

subsection \<open>The order book\<close>

definition orderbook_type :: "string \<Rightarrow> error + string" where
  "orderbook_type order_type =
     (if order_type = ''all'' then Inr ''both''
      else if order_type = ''bid'' then Inr ''buy''
      else if order_type = ''ask'' then Inr ''sell''
      else Inl (ValueError ''invalid type''))"

record 'n book_entry =
  entry_Rate :: 'n
  entry_Quantity :: 'n

record 'n book_line =
  rate :: 'n
  quantity :: 'n

text \<open>
  The loop over the keys of \<open>data\<close> (a dictionary, here the list of its items in
  order). \<open>order_type\<close> is carried from one round to the next: a key that is neither
  \<open>buy\<close> nor \<open>sell\<close> leaves it as it was.
\<close>

fun orderbook_loop ::
  "(string \<times> 'n book_entry list) list \<Rightarrow> string \<Rightarrow> (string \<times> 'n book_line list) list
     \<Rightarrow> (string \<times> 'n book_line list) list" where
  "orderbook_loop [] order_type result = result"
| "orderbook_loop ((exchange_type, entries) # rest) order_type result =
     (let order_type' = (if exchange_type = ''buy'' then ''bids''
                         else if exchange_type = ''sell'' then ''asks''
                         else order_type)
      in orderbook_loop rest order_type'
           (AList.update order_type'
              (map (\<lambda>entry. \<lparr>rate = entry_Rate entry, quantity = entry_Quantity entry\<rparr>)
                 entries)
              result))"

text \<open>
  \<open>exchange_symbol\<close> reads \<open>asset.exchange_symbol\<close>; \<open>limit\<close> is the caller's depth
  argument. The remote call is not inside a \<open>try\<close>.
\<close>

definition get_orderbook ::
  "('a \<Rightarrow> string)
     \<Rightarrow> ('n request \<Rightarrow> string + (string \<times> 'n book_entry list) list)
     \<Rightarrow> 'a \<Rightarrow> string \<Rightarrow> int
     \<Rightarrow> ('n, (string \<times> 'n book_line list) list) outcome" where
  "get_orderbook exchange_symbol getorderbook a order_type limit' =
     (case orderbook_type order_type of
        Inl e \<Rightarrow> ([], Inl e)
      | Inr order_type' \<Rightarrow>
        (let req = Getorderbook (exchange_symbol a) order_type' 100;
             trace = [Remote req]
         in case getorderbook req of
              Inl e \<Rightarrow> (trace, Inl (Raised e))
            | Inr data \<Rightarrow> (trace, Inr (orderbook_loop data order_type' []))))"

section \<open>Bundle utilities (catalyst/exchange/bundle_utils.py)\<close>

subsection \<open>Paths, as \<open>os.path\<close> computes them on POSIX\<close>

definition isabs :: "string \<Rightarrow> bool" where
  "isabs s = prefix ''/'' s"

text \<open>\<open>os.path.join\<close> of two paths.\<close>

definition path_join :: "string \<Rightarrow> string \<Rightarrow> string" where
  "path_join a b =
     (if prefix ''/'' b then b
      else if a = [] \<or> suffix ''/'' a then a @ b
      else a @ ''/'' @ b)"

text \<open>\<open>path.split('/')\<close> and \<open>'/'.join(comps)\<close>.\<close>

fun split_sep :: "string \<Rightarrow> string list" where
  "split_sep [] = [[]]"
| "split_sep (c # cs) =
     (if c = CHR ''/'' then [] # split_sep cs
      else (case split_sep cs of [] \<Rightarrow> [[c]] | w # ws \<Rightarrow> (c # w) # ws))"

fun join_sep :: "string list \<Rightarrow> string" where
  "join_sep [] = []"
| "join_sep [w] = w"
| "join_sep (w # ws) = w @ ''/'' @ join_sep ws"

text \<open>
  The loop of \<open>normpath\<close> over the components; \<open>initial_slashes\<close> is 0, 1 or 2 and
  \<open>new_comps\<close> the components kept so far.
\<close>

fun normpath_loop :: "nat \<Rightarrow> string list \<Rightarrow> string list \<Rightarrow> string list" where
  "normpath_loop initial_slashes [] new_comps = new_comps"
| "normpath_loop initial_slashes (part # comps) new_comps =
     (if part = [] \<or> part = ''.'' then normpath_loop initial_slashes comps new_comps
      else if part \<noteq> ''..'' \<or> (initial_slashes = 0 \<and> new_comps = [])
                \<or> (new_comps \<noteq> [] \<and> last new_comps = ''..'')
        then normpath_loop initial_slashes comps (new_comps @ [part])
      else if new_comps \<noteq> [] then normpath_loop initial_slashes comps (butlast new_comps)
      else normpath_loop initial_slashes comps new_comps)"

definition normpath :: "string \<Rightarrow> string" where
  "normpath path =
     (if path = [] then ''.''
      else
        (let initial_slashes =
               (if prefix ''/'' path
                then (if prefix ''//'' path \<and> \<not> prefix ''///'' path then 2 else 1)
                else (0::nat));
             comps = normpath_loop initial_slashes (split_sep path) [];
             path' = replicate initial_slashes CHR ''/'' @ join_sep comps
         in if path' = [] then ''.'' else path'))"

text \<open>\<open>cwd\<close> is what \<open>os.getcwd()\<close> answers.\<close>

definition abspath :: "string \<Rightarrow> string \<Rightarrow> string" where
  "abspath cwd path = normpath (if isabs path then path else path_join cwd path)"

text \<open>
  \<open>os.path.commonprefix\<close> of a list of two strings: it walks the smaller string
  \<open>s1\<close> character by character against the greater string \<open>s2\<close>.
\<close>

fun commonprefix_loop :: "string \<Rightarrow> string \<Rightarrow> error + string" where
  "commonprefix_loop [] s2 = Inr []"
| "commonprefix_loop (c # s1) [] = Inl IndexError"
| "commonprefix_loop (c # s1) (d # s2) =
     (if c \<noteq> d then Inr []
      else (case commonprefix_loop s1 s2 of Inl e \<Rightarrow> Inl e | Inr r \<Rightarrow> Inr (c # r)))"

definition commonprefix :: "string \<Rightarrow> string \<Rightarrow> error + string" where
  "commonprefix a b = commonprefix_loop (min a b) (max a b)"

subsection \<open>Fetching and extracting an archive\<close>

definition is_within_directory :: "string \<Rightarrow> string \<Rightarrow> string \<Rightarrow> error + bool" where
  "is_within_directory cwd directory target =
     (let abs_directory = abspath cwd directory;
          abs_target = abspath cwd target
      in case commonprefix abs_directory abs_target of
           Inl e \<Rightarrow> Inl e
         | Inr pre \<Rightarrow> Inr (pre = abs_directory))"

record tarinfo =
  name :: string

text \<open>The \<open>for\<close> loop of \<open>safe_extract\<close> over \<open>tar.getmembers()\<close>.\<close>

fun check_members :: "string \<Rightarrow> string \<Rightarrow> tarinfo list \<Rightarrow> error + unit" where
  "check_members cwd path [] = Inr ()"
| "check_members cwd path (member # rest) =
     (let member_path = path_join path (name member)
      in case is_within_directory cwd path member_path of
           Inl e \<Rightarrow> Inl e
         | Inr within \<Rightarrow>
             if \<not> within then Inl (Exception ''Attempted Path Traversal in Tar File'')
             else check_members cwd path rest)"

text \<open>
  \<open>tar.extractall(path)\<close> as the code relies on it (no extraction filter): every member
  is written at \<open>os.path.join(path, member.name)\<close>. The result lists the absolute
  locations written.
\<close>

definition extractall :: "string \<Rightarrow> tarinfo list \<Rightarrow> string \<Rightarrow> string list" where
  "extractall cwd tar path = map (\<lambda>member. abspath cwd (path_join path (name member))) tar"

definition safe_extract :: "string \<Rightarrow> tarinfo list \<Rightarrow> string \<Rightarrow> error + string list" where
  "safe_extract cwd tar path =
     (case check_members cwd path tar of
        Inl e \<Rightarrow> Inl e
      | Inr _ \<Rightarrow> Inr (extractall cwd tar path))"

text \<open>
  \<open>get_bcolz_chunk\<close>: the locations written, and the path returned or the exception.
  \<open>isdir\<close> is \<open>os.path.isdir\<close>; \<open>download_without_progress\<close> and \<open>tarfile.open\<close> together
  answer the members of the archive at a URL, or raise.
\<close>

definition get_bcolz_chunk ::
  "string \<Rightarrow> (string \<Rightarrow> string) \<Rightarrow> (string \<Rightarrow> bool) \<Rightarrow> (string \<Rightarrow> string + tarinfo list)
     \<Rightarrow> string \<Rightarrow> string \<Rightarrow> string \<Rightarrow> string \<Rightarrow> string list \<times> (error + string)" where
  "get_bcolz_chunk cwd get_exchange_bundles_folder isdir download_without_progress
       exchange_name symbol data_frequency period =
     (let root = get_exchange_bundles_folder exchange_name;
          nm = exchange_name @ ''-'' @ data_frequency @ ''-'' @ symbol @ ''-'' @ period;
          path = path_join root nm
      in if \<not> isdir path then
           (let url = ''https://s3.amazonaws.com/enigmaco/catalyst-bundles/exchange-''
                        @ exchange_name @ ''/'' @ nm @ ''.tar.gz''
            in case download_without_progress url of
                 Inl e \<Rightarrow> ([], Inl (Raised e))
               | Inr tar \<Rightarrow>
                   (case safe_extract cwd tar path of
                      Inl e \<Rightarrow> ([], Inl e)
                    | Inr written \<Rightarrow> (written, Inr path)))
         else ([], Inr path))"

text \<open>
  The specification's notion, for comparison: the resolved target is the destination
  directory itself or lies below it, component by component.
\<close>

definition path_components :: "string \<Rightarrow> string list" where
  "path_components p = filter (\<lambda>w. w \<noteq> []) (split_sep p)"

definition descendant :: "string \<Rightarrow> string \<Rightarrow> string \<Rightarrow> bool" where
  "descendant cwd directory target =
     prefix (path_components (abspath cwd directory)) (path_components (abspath cwd target))"

subsection \<open>The date range of a request\<close>

text \<open>The attributes of an asset that \<open>get_adj_dates\<close> reads.\<close>

record 't trading_pair =
  start_date :: 't
  end_minute :: "'t option"
  end_daily :: "'t option"
  exchange :: string
  symbol :: string

text \<open>\<open>str.title\<close> on ASCII: a letter is upper case after a non-letter, else lower case.\<close>

fun title_from :: "bool \<Rightarrow> string \<Rightarrow> string" where
  "title_from previous_cased [] = []"
| "title_from previous_cased (c # cs) =
     (let n = (of_char c :: nat)
      in if 65 \<le> n \<and> n \<le> 90
           then (if previous_cased then char_of (n + 32) else c) # title_from True cs
         else if 97 \<le> n \<and> n \<le> 122
           then (if previous_cased then c else char_of (n - 32)) # title_from True cs
         else c # title_from False cs)"

definition title :: "string \<Rightarrow> string" where
  "title s = title_from False s"

text \<open>The loop of \<open>get_adj_dates\<close> over the assets.\<close>

fun adj_dates_loop ::
  "string \<Rightarrow> ('t::linorder) trading_pair list \<Rightarrow> 't option \<Rightarrow> 't option
     \<Rightarrow> 't option \<times> 't option" where
  "adj_dates_loop data_frequency [] earliest_trade last_entry = (earliest_trade, last_entry)"
| "adj_dates_loop data_frequency (a # rest) earliest_trade last_entry =
     (let earliest_trade' =
            (case earliest_trade of
               None \<Rightarrow> Some (start_date a)
             | Some e \<Rightarrow> if e > start_date a then Some (start_date a) else Some e);
          end_asset = (if data_frequency = ''minute'' then end_minute a else end_daily a);
          last_entry' =
            (case end_asset of
               None \<Rightarrow> last_entry
             | Some ea \<Rightarrow>
                 (case last_entry of
                    None \<Rightarrow> Some ea
                  | Some l \<Rightarrow> if ea > l then Some ea else Some l))
      in adj_dates_loop data_frequency rest earliest_trade' last_entry')"

text \<open>
  The \<open>raise\<close> of \<open>get_adj_dates\<close> reads \<open>asset\<close>, the loop variable: the last asset, and
  unbound when the list is empty.
\<close>

definition no_data :: "'t trading_pair list \<Rightarrow> string \<Rightarrow> error" where
  "no_data assets data_frequency =
     (case assets of
        [] \<Rightarrow> UnboundLocalError ''asset''
      | _ \<Rightarrow> NoDataAvailableOnExchange (title (exchange (last assets)))
               [symbol (last assets)] data_frequency)"

text \<open>Comparing \<open>None\<close> with a date is a \<open>TypeError\<close>.\<close>

definition get_adj_dates ::
  "'t option \<Rightarrow> 't option \<Rightarrow> ('t::linorder) trading_pair list \<Rightarrow> string
     \<Rightarrow> error + ('t \<times> 't)" where
  "get_adj_dates start end' assets data_frequency =
     (case adj_dates_loop data_frequency assets None None of
        (earliest_trade, last_entry) \<Rightarrow>
          (case (case start of
                   None \<Rightarrow> Inr earliest_trade
                 | Some s \<Rightarrow>
                     (case earliest_trade of
                        None \<Rightarrow> Inl TypeError
                      | Some e \<Rightarrow> Inr (Some (if e > s then e else s)))) of
             Inl err \<Rightarrow> Inl err
           | Inr start1 \<Rightarrow>
               (let end1 =
                      (case end' of
                         None \<Rightarrow> last_entry
                       | Some en \<Rightarrow>
                           (case last_entry of
                              None \<Rightarrow> Some en
                            | Some l \<Rightarrow> if en > l then Some l else Some en))
                in case end1 of
                     None \<Rightarrow> Inl (no_data assets data_frequency)
                   | Some e1 \<Rightarrow>
                       (case start1 of
                          None \<Rightarrow> Inl TypeError
                        | Some s1 \<Rightarrow>
                            if s1 \<ge> e1 then Inl (no_data assets data_frequency)
                            else Inr (s1, e1)))))"

subsection \<open>The bounds of a month\<close>

record datetime =
  year :: int
  month :: int
  day :: int
  hour :: int
  minute :: int
  second :: int
  microsecond :: int
  tzinfo :: "string option"

definition isleap :: "int \<Rightarrow> bool" where
  "isleap y = (y mod 4 = 0 \<and> (y mod 100 \<noteq> 0 \<or> y mod 400 = 0))"

definition mdays :: "int list" where
  "mdays = [0, 31, 28, 31, 30, 31, 30, 31, 31, 30, 31, 30, 31]"

text \<open>
  The second component of \<open>calendar.monthrange(year, month)\<close>, the number of days of
  the month (the first, a weekday, is not read by this module).
\<close>

definition monthrange_ndays :: "int \<Rightarrow> int \<Rightarrow> error + int" where
  "monthrange_ndays y m =
     (if \<not> (1 \<le> m \<and> m \<le> 12) then Inl (ValueError ''bad month number'')
      else Inr (mdays ! nat m + (if m = 2 \<and> isleap y then 1 else 0)))"

text \<open>The constructor \<open>datetime(year, month, day, hour, minute, second, microsecond)\<close>.\<close>

definition datetime_new ::
  "int \<Rightarrow> int \<Rightarrow> int \<Rightarrow> int \<Rightarrow> int \<Rightarrow> int \<Rightarrow> int \<Rightarrow> error + datetime" where
  "datetime_new y m d h mi s us =
     (if \<not> (1 \<le> y \<and> y \<le> 9999) then Inl (ValueError ''year is out of range'')
      else if \<not> (1 \<le> m \<and> m \<le> 12) then Inl (ValueError ''month must be in 1..12'')
      else if \<not> (1 \<le> d \<and> d \<le> mdays ! nat m + (if m = 2 \<and> isleap y then 1 else 0))
        then Inl (ValueError ''day is out of range for month'')
      else if \<not> (0 \<le> h \<and> h \<le> 23) then Inl (ValueError ''hour must be in 0..23'')
      else if \<not> (0 \<le> mi \<and> mi \<le> 59) then Inl (ValueError ''minute must be in 0..59'')
      else if \<not> (0 \<le> s \<and> s \<le> 59) then Inl (ValueError ''second must be in 0..59'')
      else if \<not> (0 \<le> us \<and> us \<le> 999999)
        then Inl (ValueError ''microsecond must be in 0..999999'')
      else Inr \<lparr>year = y, month = m, day = d, hour = h, minute = mi, second = s,
                microsecond = us, tzinfo = None\<rparr>)"

text \<open>
  \<open>pd.to_datetime(d, utc=True)\<close> on a datetime without a time zone, the only use here:
  the same wall-clock fields, labelled UTC.
\<close>

definition to_datetime_utc :: "datetime \<Rightarrow> datetime" where
  "to_datetime_utc d = d\<lparr>tzinfo := Some ''UTC''\<rparr>"

definition get_month_start_end :: "datetime \<Rightarrow> error + (datetime \<times> datetime)" where
  "get_month_start_end d =
     (case monthrange_ndays (year d) (month d) of
        Inl e \<Rightarrow> Inl e
      | Inr ndays \<Rightarrow>
          (case datetime_new (year d) (month d) 1 0 0 0 0 of
             Inl e \<Rightarrow> Inl e
           | Inr month_start \<Rightarrow>
               (case datetime_new (year d) (month d) ndays 23 59 0 0 of
                  Inl e \<Rightarrow> Inl e
                | Inr month_end \<Rightarrow>
                    Inr (to_datetime_utc month_start, to_datetime_utc month_end))))"

section \<open>The vocabulary of the specification\<close>

text \<open>
  The specification says that the remote lists candles newest first: no candle is
  older than one listed after it.
\<close>

definition newest_first :: "(string \<Rightarrow> 't::linorder) \<Rightarrow> 'n candle list \<Rightarrow> bool" where
  "newest_first to_datetime candles =
     sorted_wrt (\<lambda>c d. to_datetime (candle_T c) \<ge> to_datetime (candle_T d)) candles"

text \<open>
  The date-range resolver in the specification's words: the earliest trade is the
  minimum start date; the last entry is the maximum of the end values present for the
  frequency, absent when there is none; the effective start is the requested start when
  given and not before the earliest trade, else the earliest trade; the effective end is
  the requested end when given and not after a present last entry, else the last entry.
\<close>

definition earliest_trade_of :: "('t::linorder) trading_pair list \<Rightarrow> 't" where
  "earliest_trade_of assets = Min (start_date ` set assets)"

definition asset_end :: "string \<Rightarrow> 't trading_pair \<Rightarrow> 't option" where
  "asset_end data_frequency a =
     (if data_frequency = ''minute'' then end_minute a else end_daily a)"

definition last_entry_of :: "string \<Rightarrow> ('t::linorder) trading_pair list \<Rightarrow> 't option" where
  "last_entry_of data_frequency assets =
     (let ends = List.map_filter (asset_end data_frequency) assets
      in if ends = [] then None else Some (Max (set ends)))"

definition effective_start :: "('t::linorder) option \<Rightarrow> 't trading_pair list \<Rightarrow> 't" where
  "effective_start start assets =
     (case start of
        None \<Rightarrow> earliest_trade_of assets
      | Some s \<Rightarrow> if s \<ge> earliest_trade_of assets then s else earliest_trade_of assets)"

definition effective_end ::
  "('t::linorder) option \<Rightarrow> string \<Rightarrow> 't trading_pair list \<Rightarrow> 't option" where
  "effective_end end' data_frequency assets =
     (case end' of
        None \<Rightarrow> last_entry_of data_frequency assets
      | Some e \<Rightarrow>
          (case last_entry_of data_frequency assets of
             None \<Rightarrow> Some e
           | Some l \<Rightarrow> if e \<le> l then Some e else Some l))"

text \<open>
  A trace in which every request to the remote comes right after a call of
  \<open>ask_request\<close>.
\<close>

fun rate_limited :: "'n event list \<Rightarrow> bool" where
  "rate_limited [] = True"
| "rate_limited (Ask_request # Remote r # rest) = rate_limited rest"
| "rate_limited (Ask_request # rest) = rate_limited rest"
| "rate_limited (Remote r # rest) = False"

text \<open>Example data: a candle with a given timestamp, and a remote that answers a fixed list.\<close>

definition candle_at :: "string \<Rightarrow> int candle" where
  "candle_at t = \<lparr>candle_O = 1, candle_H = 3, candle_L = 0, candle_C = 2, candle_V = 10,
                  candle_T = t\<rparr>"

definition ticks_remote :: "int candle list \<Rightarrow> string \<Rightarrow> string + int tick_data" where
  "ticks_remote candles url = Inr \<lparr>tick_message = Some [], tick_result = Some candles\<rparr>"

section \<open>Properties of the gateway\<close>

subsection \<open>Order reconstruction\<close>

text \<open>
  C1. Whenever the asset of a remote order record is known, \<open>_create_order\<close> rebuilds an
  order whose status is CANCELLED if the record is cancel-initiated, else FILLED if its
  closed timestamp is present, else OPEN; so a cancel-initiated record with a closed
  timestamp gives CANCELLED. With an unknown asset no order is rebuilt at all.
\<close>

theorem create_order_status_rule:
  "(case internal_create_order assets to_datetime r of
      Inl e \<Rightarrow> assets (Exchange r) = None
    | Inr (ord, executed_price) \<Rightarrow>
        assets (Exchange r) \<noteq> None \<and>
        status ord = Some (if CancelInitiated r then CANCELLED
                           else if Closed r \<noteq> None then FILLED else OPEN) \<and>
        (CancelInitiated r \<and> Closed r \<noteq> None \<longrightarrow> status ord = Some CANCELLED))"
  by (simp add: internal_create_order_def Let_def split: option.split)

text \<open>
  The rule at a record that is both cancel-initiated and closed: the status is CANCELLED.
\<close>

theorem create_order_status_rule_witness:
  "internal_create_order [''BTC-ETH'' \<mapsto> ''eth_btc''] (\<lambda>s. s)
     \<lparr>OrderUuid = ''u1'', Exchange = ''BTC-ETH'', Quantity = (5::int),
      QuantityRemaining = 2, Limit = Some 7, CommissionPaid = None, PricePerUnit = None,
      CancelInitiated = True, Opened = ''2017-07-03'', Closed = Some ''2017-07-04''\<rparr>
   = Inr (\<lparr>dt = ''2017-07-03'', asset = ''eth_btc'', amount = 5, stop = None,
           limit = Some 7, filled = Some 3, order_id = ''u1'', commission = None,
           status = Some CANCELLED\<rparr>, None)"
  using create_order_status_rule
    [where assets = "[''BTC-ETH'' \<mapsto> ''eth_btc'']" and to_datetime = "\<lambda>s. s" and r =
        "\<lparr>OrderUuid = ''u1'', Exchange = ''BTC-ETH'', Quantity = (5::int),
          QuantityRemaining = 2, Limit = Some 7, CommissionPaid = None, PricePerUnit = None,
          CancelInitiated = True, Opened = ''2017-07-03'', Closed = Some ''2017-07-04''\<rparr>"]
  by (simp add: internal_create_order_def Let_def)

text \<open>
  Every element \<open>get_open_orders\<close> returns is what \<open>_create_order\<close> returned for the
  record at the same position.
\<close>

lemma open_orders_loop_elements:
  "open_orders_loop assets to_dt rs acc = Inr out \<Longrightarrow>
   map Inr out = map Inr acc @ map (internal_create_order assets to_dt) rs"
  by (induction rs arbitrary: acc) (auto split: sum.splits)

text \<open>
  C6. \<open>get_open_orders\<close> on one open order record: the element of the returned list is
  the pair (order, executed price) that \<open>_create_order\<close> returns, not the order alone.
  The order inside the pair carries the status of the derivation rule, and the list
  follows the remote's order.
\<close>

theorem get_open_orders_returns_pairs:
  "get_open_orders (\<lambda>a. ''BTC-ETH'') [''BTC-ETH'' \<mapsto> ''eth_btc''] (\<lambda>s. s)
     (\<lambda>s. Inr [\<lparr>OrderUuid = ''u1'', Exchange = ''BTC-ETH'', Quantity = (5::int),
                  QuantityRemaining = 2, Limit = Some 7, CommissionPaid = None,
                  PricePerUnit = Some 6, CancelInitiated = False, Opened = ''2017-07-03'',
                  Closed = None\<rparr>])
     ''eth_btc''
   = ([Ask_request, Remote (Getopenorders ''BTC-ETH'')],
      Inr [(\<lparr>dt = ''2017-07-03'', asset = ''eth_btc'', amount = 5, stop = None,
             limit = Some 7, filled = Some 3, order_id = ''u1'', commission = None,
             status = Some OPEN\<rparr>, Some 6)])"
  by (simp add: get_open_orders_def internal_create_order_def)

subsection \<open>Placing an order\<close>

text \<open>
  For a limit or stop-limit style and a remote that answers the request without
  raising: a reply INSUFFICIENT_FUNDS or DUST_TRADE_DISALLOWED_MIN_VALUE_50K_SAT makes
  \<open>create_order\<close> return \<open>None\<close> with no error; any other reply for which the test
  \<open>'uuid' in order_status\<close> fails raises \<open>CreateOrderError\<close>. Any other style raises
  \<open>InvalidOrderStyle\<close> and the trace is empty: nothing was sent to the remote.
\<close>

lemma create_order_outcomes:
  fixes api :: "('n::abs) request \<Rightarrow> string + api_reply"
  assumes "req = (if is_buy then Buylimit (get_symbol a) amt (get_limit_price style is_buy)
                  else Selllimit (get_symbol a) (abs amt) (get_limit_price style is_buy))"
  shows "((is_LimitOrder style \<or> is_StopLimitOrder style) \<and> api req = Inr reply \<and>
            (reply = Reply_msg ''INSUFFICIENT_FUNDS'' \<or>
             reply = Reply_msg ''DUST_TRADE_DISALLOWED_MIN_VALUE_50K_SAT'') \<longrightarrow>
          create_order nm get_symbol get_limit_price get_stop_price now api a amt is_buy style
            = ([Ask_request, Remote req], Inr None))
       \<and> ((is_LimitOrder style \<or> is_StopLimitOrder style) \<and> api req = Inr reply \<and>
            \<not> key_in ''uuid'' reply \<and>
            reply \<noteq> Reply_msg ''INSUFFICIENT_FUNDS'' \<and>
            reply \<noteq> Reply_msg ''DUST_TRADE_DISALLOWED_MIN_VALUE_50K_SAT'' \<longrightarrow>
          create_order nm get_symbol get_limit_price get_stop_price now api a amt is_buy style
            = ([Ask_request, Remote req], Inl (CreateOrderError nm reply)))
       \<and> (\<not> (is_LimitOrder style \<or> is_StopLimitOrder style) \<longrightarrow>
          create_order nm get_symbol get_limit_price get_stop_price now api a amt is_buy style
            = ([], Inl (InvalidOrderStyle nm (class_name style))))"
proof -
  have u1: "\<not> sublist ''uuid'' ''INSUFFICIENT_FUNDS''" by code_simp
  have u2: "\<not> sublist ''uuid'' ''DUST_TRADE_DISALLOWED_MIN_VALUE_50K_SAT''" by code_simp
  show ?thesis
    using assms u1 u2
    by (auto simp: create_order_def Let_def)
qed

text \<open>
  The three outcomes at a buy declined for funds, a sell rejected for another reason,
  and a market order.
\<close>

lemma create_order_outcomes_examples:
  "create_order ''bittrex'' (\<lambda>a. a) (\<lambda>s b. Some 5) (\<lambda>s b. None) ''now''
       (\<lambda>r. Inr (Reply_msg ''INSUFFICIENT_FUNDS'')) ''BTC-ETH'' (2::int) True (LimitOrder 5)
     = ([Ask_request, Remote (Buylimit ''BTC-ETH'' 2 (Some 5))], Inr None)
   \<and> create_order ''bittrex'' (\<lambda>a. a) (\<lambda>s b. Some 5) (\<lambda>s b. None) ''now''
       (\<lambda>r. Inr (Reply_msg ''MARKET_OFFLINE'')) ''BTC-ETH'' (- 2::int) False (StopLimitOrder 5 4)
     = ([Ask_request, Remote (Selllimit ''BTC-ETH'' 2 (Some 5))],
        Inl (CreateOrderError ''bittrex'' (Reply_msg ''MARKET_OFFLINE'')))
   \<and> create_order ''bittrex'' (\<lambda>a. a) (\<lambda>s b. Some 5) (\<lambda>s b. None) ''now''
       (\<lambda>r. Inr (Reply_msg ''MARKET_OFFLINE'')) ''BTC-ETH'' (2::int) True (OtherStyle ''MarketOrder'')
     = ([], Inl (InvalidOrderStyle ''bittrex'' ''MarketOrder''))"
proof -
  have u: "\<not> key_in ''uuid'' (Reply_msg ''MARKET_OFFLINE'')" by code_simp
  note a = create_order_outcomes
    [where is_buy = True and get_symbol = "\<lambda>a. a" and a = "''BTC-ETH''" and amt = "2::int"
       and get_limit_price = "\<lambda>s b. Some 5" and style = "LimitOrder 5"
       and api = "\<lambda>r. Inr (Reply_msg ''INSUFFICIENT_FUNDS'')"
       and reply = "Reply_msg ''INSUFFICIENT_FUNDS''" and nm = "''bittrex''"
       and get_stop_price = "\<lambda>s b. None" and now = "''now''", OF refl]
  note b = create_order_outcomes
    [where is_buy = False and get_symbol = "\<lambda>a. a" and a = "''BTC-ETH''" and amt = "- 2::int"
       and get_limit_price = "\<lambda>s b. Some 5" and style = "StopLimitOrder 5 4"
       and api = "\<lambda>r. Inr (Reply_msg ''MARKET_OFFLINE'')"
       and reply = "Reply_msg ''MARKET_OFFLINE''" and nm = "''bittrex''"
       and get_stop_price = "\<lambda>s b. None" and now = "''now''", OF refl]
  note c = create_order_outcomes
    [where is_buy = True and get_symbol = "\<lambda>a. a" and a = "''BTC-ETH''" and amt = "2::int"
       and get_limit_price = "\<lambda>s b. Some 5" and style = "OtherStyle ''MarketOrder''"
       and api = "\<lambda>r. Inr (Reply_msg ''MARKET_OFFLINE'')"
       and reply = "Reply_msg ''MARKET_OFFLINE''" and nm = "''bittrex''"
       and get_stop_price = "\<lambda>s b. None" and now = "''now''", OF refl]
  from a b c u show ?thesis by simp
qed

text \<open>
  C7. The remote rejects a buy with the message \<open>no uuid returned\<close>: the reply carries no
  order id and is neither soft decline, yet \<open>'uuid' in order_status\<close> holds of the message
  as a substring test, \<open>order_status['uuid']\<close> is evaluated on a string, and
  \<open>create_order\<close> raises \<open>TypeError\<close>, not \<open>CreateOrderError\<close>.
\<close>

theorem create_order_uuid_in_message:
  "create_order ''bittrex'' (\<lambda>a. a) (\<lambda>s b. Some 5) (\<lambda>s b. None) ''now''
       (\<lambda>r. Inr (Reply_msg ''no uuid returned'')) ''BTC-ETH'' (2::int) True (LimitOrder 5)
     = ([Ask_request, Remote (Buylimit ''BTC-ETH'' 2 (Some 5))], Inl TypeError)
   \<and> Reply_msg ''no uuid returned'' \<noteq> Reply_msg ''INSUFFICIENT_FUNDS''
   \<and> Reply_msg ''no uuid returned'' \<noteq> Reply_msg ''DUST_TRADE_DISALLOWED_MIN_VALUE_50K_SAT''"
proof -
  have u: "key_in ''uuid'' (Reply_msg ''no uuid returned'')" by code_simp
  then show ?thesis
    by (simp add: create_order_def)
qed

subsection \<open>Candles\<close>

lemma get_candles_single:
  assumes "candle_frequency f = Inr fr"
    and "urlopen (ticks_url (get_symbol a) fr) = Inr data"
    and "asset_candles to_dt bc data = Inr b"
  shows "get_candles to_dt get_symbol urlopen f (TradingPair a) bc sd =
           ([Remote (Urlopen (ticks_url (get_symbol a) fr))], Inr (Single b))"
  using assms by (simp add: get_candles_def)

lemma asset_candles_one:
  assumes "tick_message data = None \<or> tick_message data = Some []"
    and "tick_result data = Some candles" and "candles \<noteq> []"
  shows "asset_candles to_dt None data = Inr (One (ohlc_from_candle to_dt (last candles)))"
proof -
  from \<open>candles \<noteq> []\<close> obtain c cs where r: "rev candles = c # cs"
    by (cases "rev candles") auto
  then have "last candles = c"
    by (metis list.sel(1) hd_rev)
  with assms r show ?thesis
    by (auto simp: asset_candles_def)
qed

lemma asset_candles_bars:
  assumes "tick_message data = None \<or> tick_message data = Some []"
    and "tick_result data = Some candles" and "0 \<le> k"
  shows "asset_candles to_dt (Some k) data =
           Inr (Bars (map (ohlc_from_candle to_dt) (take (nat k) (rev candles))))"
  using assms by (auto simp: asset_candles_def slice_to_def)

lemma newest_first_last:
  assumes "newest_first to_dt candles" and "c \<in> set candles"
  shows "to_dt (candle_T (last candles)) \<le> to_dt (candle_T c)"
proof -
  from assms(2) obtain i where i: "i < length candles" "candles ! i = c"
    by (auto simp: in_set_conv_nth)
  then have ne: "candles \<noteq> []" by auto
  show ?thesis
  proof (cases "i = length candles - 1")
    case True
    with i ne show ?thesis by (simp add: last_conv_nth)
  next
    case False
    with i have "i < length candles - 1" by simp
    with assms(1) i ne show ?thesis
      unfolding newest_first_def
      by (metis (mono_tags, lifting) diff_less last_conv_nth length_greater_0_conv
          sorted_wrt_nth_less zero_less_one)
  qed
qed

lemma newest_first_rev_sorted:
  assumes "newest_first to_dt candles"
  shows "sorted (map (\<lambda>c. to_dt (candle_T c)) (rev candles))"
proof -
  have "sorted_wrt (\<lambda>d c. to_dt (candle_T c) \<ge> to_dt (candle_T d)) (rev candles)"
    using assms unfolding newest_first_def by (simp add: sorted_wrt_rev)
  then show ?thesis by (simp add: sorted_map)
qed

text \<open>
  C2, as amended. For a single asset and a non-empty candle list, \<open>get_candles\<close> without
  \<open>bar_count\<close> returns the candle built from the last element of the remote's list (the
  first after reversal); when the list is newest first, no candle of the list is older
  than it.
\<close>

theorem get_candles_without_bar_count:
  assumes "candle_frequency f = Inr fr"
    and "urlopen (ticks_url (get_symbol a) fr) = Inr data"
    and "tick_message data = None \<or> tick_message data = Some []"
    and "tick_result data = Some candles"
    and "candles \<noteq> []"
  shows "get_candles to_dt get_symbol urlopen f (TradingPair a) None sd =
           ([Remote (Urlopen (ticks_url (get_symbol a) fr))],
            Inr (Single (One (ohlc_from_candle to_dt (last candles)))))
         \<and> (newest_first to_dt candles \<longrightarrow>
              (\<forall>c \<in> set candles.
                 ohlc_last_traded (ohlc_from_candle to_dt (last candles))
                   \<le> to_dt (candle_T c)))"
proof (intro conjI impI ballI)
  have "asset_candles to_dt None data = Inr (One (ohlc_from_candle to_dt (last candles)))"
    using assms(3-5) by (rule asset_candles_one)
  then show "get_candles to_dt get_symbol urlopen f (TradingPair a) None sd =
      ([Remote (Urlopen (ticks_url (get_symbol a) fr))],
       Inr (Single (One (ohlc_from_candle to_dt (last candles)))))"
    using assms(1,2) by (simp add: get_candles_single)
next
  fix c
  assume "newest_first to_dt candles" and "c \<in> set candles"
  then show "ohlc_last_traded (ohlc_from_candle to_dt (last candles)) \<le> to_dt (candle_T c)"
    by (simp add: ohlc_from_candle_def newest_first_last)
qed

text \<open>
  With two candles listed newest first, the candle of 1 July is returned.
\<close>

theorem get_candles_without_bar_count_witness:
  "get_candles (\<lambda>s. s) (\<lambda>a. a)
       (ticks_remote [candle_at ''2017-07-02T00:00:00'', candle_at ''2017-07-01T00:00:00''])
       ''daily'' (TradingPair ''BTC-ETH'') None None
     = ([Remote (Urlopen (ticks_url ''BTC-ETH'' ''day'')) ],
        Inr (Single (One (ohlc_from_candle (\<lambda>s. s) (candle_at ''2017-07-01T00:00:00'')))))"
proof -
  have 1: "candle_frequency ''daily'' = Inr ''day''"
    by (simp add: candle_frequency_def)
  have 2: "ticks_remote [candle_at ''2017-07-02T00:00:00'', candle_at ''2017-07-01T00:00:00'']
             (ticks_url ((\<lambda>a. a) ''BTC-ETH'') ''day'')
           = Inr \<lparr>tick_message = Some [], tick_result =
                   Some [candle_at ''2017-07-02T00:00:00'', candle_at ''2017-07-01T00:00:00'']\<rparr>"
    by (simp add: ticks_remote_def)
  from get_candles_without_bar_count
    [where urlopen = "ticks_remote [candle_at ''2017-07-02T00:00:00'',
                                    candle_at ''2017-07-01T00:00:00'']"
       and get_symbol = "\<lambda>a. a" and a = "''BTC-ETH''" and to_dt = "\<lambda>s. s" and sd = None,
     OF 1 2]
  show ?thesis by simp
qed

text \<open>
  C2 as stated fails: the remote lists the candle of 2 July, then that of 1 July
  (newest first); the result is the candle of 1 July, not the most recent one.
\<close>

theorem get_candles_most_recent_counterexample:
  "newest_first (\<lambda>s. s)
     [candle_at ''2017-07-02T00:00:00'', candle_at ''2017-07-01T00:00:00'']
   \<and> snd (get_candles (\<lambda>s. s) (\<lambda>a. a)
            (ticks_remote [candle_at ''2017-07-02T00:00:00'', candle_at ''2017-07-01T00:00:00''])
            ''daily'' (TradingPair ''BTC-ETH'') None None
          )
       = Inr (Single (One (ohlc_from_candle (\<lambda>s. s) (candle_at ''2017-07-01T00:00:00''))))
   \<and> snd (get_candles (\<lambda>s. s) (\<lambda>a. a)
            (ticks_remote [candle_at ''2017-07-02T00:00:00'', candle_at ''2017-07-01T00:00:00''])
            ''daily'' (TradingPair ''BTC-ETH'') None None
          )
       \<noteq> Inr (Single (One (ohlc_from_candle (\<lambda>s. s) (candle_at ''2017-07-02T00:00:00''))))"
  by (simp add: newest_first_def candle_at_def get_candles_def candle_frequency_def
      ticks_remote_def asset_candles_def ohlc_from_candle_def)

text \<open>
  C8. For a single asset, a remote list of \<open>n\<close> candles and a bar count \<open>k \<ge> 0\<close>,
  \<open>get_candles\<close> returns the first \<open>k\<close> candles of the reversed list, \<open>min k n\<close> of them;
  when the remote list is newest first they are in ascending time order and none of
  them is newer than a candle left out.
\<close>

theorem get_candles_oldest_bars:
  assumes "candle_frequency f = Inr fr"
    and "urlopen (ticks_url (get_symbol a) fr) = Inr data"
    and "tick_message data = None \<or> tick_message data = Some []"
    and "tick_result data = Some candles"
    and "0 \<le> k"
  shows "get_candles to_dt get_symbol urlopen f (TradingPair a) (Some k) sd =
           ([Remote (Urlopen (ticks_url (get_symbol a) fr))],
            Inr (Single (Bars (map (ohlc_from_candle to_dt) (take (nat k) (rev candles))))))
         \<and> length (take (nat k) (rev candles)) = min (nat k) (length candles)
         \<and> (newest_first to_dt candles \<longrightarrow>
              sorted (map ohlc_last_traded
                        (map (ohlc_from_candle to_dt) (take (nat k) (rev candles))))
              \<and> (\<forall>r \<in> set (take (nat k) (rev candles)).
                   \<forall>d \<in> set (drop (nat k) (rev candles)).
                     to_dt (candle_T r) \<le> to_dt (candle_T d)))"
proof (intro conjI impI ballI)
  have "asset_candles to_dt (Some k) data =
          Inr (Bars (map (ohlc_from_candle to_dt) (take (nat k) (rev candles))))"
    using assms(3-5) by (rule asset_candles_bars)
  then show "get_candles to_dt get_symbol urlopen f (TradingPair a) (Some k) sd =
      ([Remote (Urlopen (ticks_url (get_symbol a) fr))],
       Inr (Single (Bars (map (ohlc_from_candle to_dt) (take (nat k) (rev candles))))))"
    using assms(1,2) by (simp add: get_candles_single)
next
  show "length (take (nat k) (rev candles)) = min (nat k) (length candles)"
    by (simp add: min.commute)
next
  assume nf: "newest_first to_dt candles"
  have "map ohlc_last_traded (map (ohlc_from_candle to_dt) (take (nat k) (rev candles)))
        = take (nat k) (map (\<lambda>c. to_dt (candle_T c)) (rev candles))"
    by (simp add: take_map ohlc_from_candle_def comp_def)
  with newest_first_rev_sorted [OF nf]
  show "sorted (map ohlc_last_traded
                  (map (ohlc_from_candle to_dt) (take (nat k) (rev candles))))"
    by (simp add: sorted_wrt_take)
next
  fix r d
  assume nf: "newest_first to_dt candles"
    and r: "r \<in> set (take (nat k) (rev candles))"
    and d: "d \<in> set (drop (nat k) (rev candles))"
  have "sorted (map (\<lambda>c. to_dt (candle_T c))
                  (take (nat k) (rev candles) @ drop (nat k) (rev candles)))"
    using newest_first_rev_sorted [OF nf] by simp
  then show "to_dt (candle_T r) \<le> to_dt (candle_T d)"
    using r d unfolding map_append sorted_append by auto
qed

text \<open>
  Five candles listed newest first and a bar count of 3: the candles of 1, 2 and 3
  July, in that order.
\<close>

theorem get_candles_oldest_bars_witness:
  "get_candles (\<lambda>s. s) (\<lambda>a. a)
       (ticks_remote [candle_at ''2017-07-05'', candle_at ''2017-07-04'',
                      candle_at ''2017-07-03'', candle_at ''2017-07-02'',
                      candle_at ''2017-07-01''])
       ''daily'' (TradingPair ''BTC-ETH'') (Some 3) None
     = ([Remote (Urlopen (ticks_url ''BTC-ETH'' ''day'')) ],
        Inr (Single (Bars (map (ohlc_from_candle (\<lambda>s. s))
               [candle_at ''2017-07-01'', candle_at ''2017-07-02'', candle_at ''2017-07-03'']))))
   \<and> sorted [''2017-07-01'', ''2017-07-02'', ''2017-07-03'']"
proof -
  let ?cs = "[candle_at ''2017-07-05'', candle_at ''2017-07-04'', candle_at ''2017-07-03'',
              candle_at ''2017-07-02'', candle_at ''2017-07-01'']"
  have 1: "candle_frequency ''daily'' = Inr ''day''"
    by (simp add: candle_frequency_def)
  have 2: "ticks_remote ?cs (ticks_url ((\<lambda>a. a) ''BTC-ETH'') ''day'')
           = Inr \<lparr>tick_message = Some [], tick_result = Some ?cs\<rparr>"
    by (simp add: ticks_remote_def)
  have 3: "(0::int) \<le> 3" by simp
  have 4: "newest_first (\<lambda>s. s) ?cs"
    by (simp add: newest_first_def candle_at_def)
  from get_candles_oldest_bars
    [where urlopen = "ticks_remote ?cs" and get_symbol = "\<lambda>a. a" and a = "''BTC-ETH''"
       and to_dt = "\<lambda>s. s" and sd = None and candles = ?cs, OF 1 2 _ _ 3] 4
  show ?thesis by (simp add: ohlc_from_candle_def candle_at_def)
qed

subsection \<open>The rate limiter\<close>

lemma rate_limited_append:
  "rate_limited tr \<Longrightarrow> rate_limited (tr @ [Ask_request, Remote r])"
  by (induction tr rule: rate_limited.induct) simp_all

lemma tickers_loop_rate_limited:
  "rate_limited tr \<Longrightarrow> rate_limited (fst (tickers_loop get_symbol now getticker as tr ticks))"
proof (induction as arbitrary: tr ticks)
  case Nil
  then show ?case by simp
next
  case (Cons a rest)
  from Cons.prems have "rate_limited (tr @ [Ask_request, Remote (Getticker (get_symbol a))])"
    by (rule rate_limited_append)
  then show ?case
    by (auto simp: Let_def split: sum.split intro: Cons.IH)
qed

text \<open>
  Six operations call \<open>ask_request\<close> right before each request they send.
\<close>

lemma ask_request_first:
  "rate_limited (fst (get_balances getbalances))"
  "rate_limited (fst (create_order nm get_symbol glp gsp now api a amt is_buy style))"
  "rate_limited (fst (get_open_orders get_symbol assets to_dt getopenorders a))"
  "rate_limited (fst (get_order nm assets to_dt getorder oid))"
  "rate_limited (fst (cancel_order nm cancel order_param))"
  "rate_limited (fst (tickers get_symbol now getticker as))"
       apply (simp add: get_balances_def Let_def split: sum.split balances_reply.split)
      apply (simp add: create_order_def Let_def split: sum.split)
     apply (simp add: get_open_orders_def Let_def split: sum.split)
    apply (simp add: get_order_def Let_def split: sum.split option.split)
   apply (simp add: cancel_order_def Let_def split: sum.split)
  apply (simp add: tickers_def tickers_loop_rate_limited)
  done

text \<open>
  \<open>get_candles\<close> and \<open>get_orderbook\<close> never call it.
\<close>

lemma candles_loop_never_asks:
  "Ask_request \<notin> set tr \<Longrightarrow>
   Ask_request \<notin> set (fst (candles_loop to_dt get_symbol urlopen fr bc as tr m))"
  by (induction as arbitrary: tr m) (auto simp: Let_def split: sum.split)

lemma get_candles_never_asks:
  "Ask_request \<notin> set (fst (get_candles to_dt get_symbol urlopen f assets bc sd))"
proof (cases "candle_frequency f")
  case (Inl e)
  then show ?thesis by (simp add: get_candles_def)
next
  case (Inr fr)
  define asset_list where "asset_list = (case assets of TradingPair a \<Rightarrow> [a] | Asset_list l \<Rightarrow> l)"
  obtain tr res where l: "candles_loop to_dt get_symbol urlopen fr bc asset_list [] [] = (tr, res)"
    by (cases "candles_loop to_dt get_symbol urlopen fr bc asset_list [] []")
  have "Ask_request \<notin> set (fst (candles_loop to_dt get_symbol urlopen fr bc asset_list [] []))"
    by (rule candles_loop_never_asks) simp
  with l have "Ask_request \<notin> set tr" by simp
  with Inr l show ?thesis
    unfolding asset_list_def
    by (simp add: get_candles_def Let_def split: sum.split assets_arg.split option.split)
qed

lemma get_orderbook_never_asks:
  "Ask_request \<notin> set (fst (get_orderbook exchange_symbol getorderbook a order_type lim))"
  by (simp add: get_orderbook_def Let_def split: sum.split)

text \<open>
  C3. \<open>get_candles\<close> for one asset and \<open>get_orderbook\<close> for the bids each send their
  request to the remote with no call of \<open>ask_request\<close> before it.
\<close>

theorem remote_call_without_ask_request:
  "fst (get_candles (\<lambda>s. s) (\<lambda>a. a) (ticks_remote [candle_at ''2017-07-01''])
          ''daily'' (TradingPair ''BTC-ETH'') None None
        )
     = [Remote (Urlopen
         ''https://bittrex.com/Api/v2.0/pub/market/GetTicks?marketName=BTC-ETH&tickInterval=day&_=1499127220008'')]
   \<and> \<not> rate_limited (fst (get_candles (\<lambda>s. s) (\<lambda>a. a) (ticks_remote [candle_at ''2017-07-01''])
          ''daily'' (TradingPair ''BTC-ETH'') None None
        ))
   \<and> fst (get_orderbook (\<lambda>a. a) (\<lambda>r. Inr [(''buy'', [\<lparr>entry_Rate = 1::int, entry_Quantity = 2\<rparr>])])
          ''BTC-ETH'' ''bid'' 5
        )
     = [Remote (Getorderbook ''BTC-ETH'' ''buy'' 100)]
   \<and> \<not> rate_limited (fst (get_orderbook (\<lambda>a. a)
          (\<lambda>r. Inr [(''buy'', [\<lparr>entry_Rate = 1::int, entry_Quantity = 2\<rparr>])])
          ''BTC-ETH'' ''bid'' 5
        ))"
  by (simp add: get_candles_def candle_frequency_def ticks_remote_def asset_candles_def
      ticks_url_def URL2_def get_orderbook_def orderbook_type_def)

subsection \<open>The order book\<close>

text \<open>
  C10. \<open>get_orderbook\<close> gives the same trace and the same result for any two values of
  the depth argument, and the request it sends, if any, asks for a depth of 100.
\<close>

theorem get_orderbook_ignores_limit:
  "get_orderbook exchange_symbol getorderbook a order_type limit1 =
     get_orderbook exchange_symbol getorderbook a order_type limit2
   \<and> fst (get_orderbook exchange_symbol getorderbook a order_type limit1) =
       (case orderbook_type order_type of
          Inl e \<Rightarrow> []
        | Inr t \<Rightarrow> [Remote (Getorderbook (exchange_symbol a) t 100)])"
  by (simp add: get_orderbook_def Let_def split: sum.split)

section \<open>Properties of the bundle utilities\<close>

subsection \<open>Archive extraction\<close>

text \<open>
  An entry named \<open>../../evil\<close> is refused.
\<close>

lemma safe_extract_rejects_parent:
  "safe_extract ''/'' [\<lparr>name = ''../../evil''\<rparr>] ''/data/bundle''
     = Inl (Exception ''Attempted Path Traversal in Tar File'')"
  by code_simp

text \<open>
  C4. An entry that resolves into a sibling directory whose name extends the
  destination's name passes the check, which compares the two paths character by
  character: \<open>safe_extract\<close> raises nothing and the entry is written outside the
  destination directory, also through \<open>get_bcolz_chunk\<close>.
\<close>

theorem safe_extract_accepts_sibling_directory:
  "safe_extract ''/'' [\<lparr>name = ''../bundle-evil/x''\<rparr>] ''/data/bundle''
     = Inr [''/data/bundle-evil/x'']
   \<and> \<not> descendant ''/'' ''/data/bundle'' (path_join ''/data/bundle'' ''../bundle-evil/x'')
   \<and> get_bcolz_chunk ''/'' (\<lambda>exchange_name. ''/data'') (\<lambda>path. False)
        (\<lambda>url. Inr [\<lparr>name = ''../bittrex-daily-eth_btc-2017-10-evil/x''\<rparr>])
        ''bittrex'' ''eth_btc'' ''daily'' ''2017-10''
     = ([''/data/bittrex-daily-eth_btc-2017-10-evil/x''],
        Inr ''/data/bittrex-daily-eth_btc-2017-10'')"
  by code_simp

subsection \<open>The date range\<close>

lemma adj_dates_loop_earliest:
  "fst (adj_dates_loop f as et le) =
     (if as = [] then et
      else Some (case et of None \<Rightarrow> Min (start_date ` set as)
                 | Some e \<Rightarrow> min e (Min (start_date ` set as))))"
proof (induction as arbitrary: et le)
  case Nil
  then show ?case by simp
next
  case (Cons a rest)
  show ?case
  proof (cases "rest = []")
    case True
    then show ?thesis by (auto simp: Let_def min_def split: option.split)
  next
    case False
    then have m: "Min (start_date ` set (a # rest)) = min (start_date a) (Min (start_date ` set rest))"
      by simp
    show ?thesis
      unfolding m using False
      by (simp add: Cons.IH Let_def split: option.split) (auto simp: min_def)
  qed
qed

lemma map_filter_Cons:
  "List.map_filter g (x # xs) =
     (case g x of None \<Rightarrow> List.map_filter g xs | Some y \<Rightarrow> y # List.map_filter g xs)"
  by (simp add: List.map_filter_def split: option.split)

lemma adj_dates_loop_last:
  "snd (adj_dates_loop f as et le) =
     (case (le, last_entry_of f as) of
        (None, r) \<Rightarrow> r
      | (Some l, None) \<Rightarrow> Some l
      | (Some l, Some r) \<Rightarrow> Some (max l r))"
proof (induction as arbitrary: et le)
  case Nil
  then show ?case by (simp add: last_entry_of_def List.map_filter_def split: option.split)
next
  case (Cons a rest)
  show ?case
  proof (cases "asset_end f a")
    case None
    then have "last_entry_of f (a # rest) = last_entry_of f rest"
      by (simp add: last_entry_of_def map_filter_Cons)
    with None show ?thesis
      by (simp add: Cons.IH Let_def asset_end_def)
  next
    case (Some ea)
    have l: "last_entry_of f (a # rest) =
               (case last_entry_of f rest of None \<Rightarrow> Some ea | Some r \<Rightarrow> Some (max ea r))"
      using Some by (simp add: last_entry_of_def map_filter_Cons Let_def)
    from Some have e: "(if f = ''minute'' then end_minute a else end_daily a) = Some ea"
      by (simp add: asset_end_def)
    show ?thesis
      unfolding l
      by (simp add: Cons.IH Let_def e split: option.split) (auto simp: max_def)
  qed
qed

lemma adj_dates_loop_spec:
  "as \<noteq> [] \<Longrightarrow>
   adj_dates_loop f as None None = (Some (earliest_trade_of as), last_entry_of f as)"
  using adj_dates_loop_earliest [of f as None None] adj_dates_loop_last [of f as None None]
  by (simp add: earliest_trade_of_def prod_eq_iff)

text \<open>
  C5, as amended. For a non-empty list of assets, \<open>get_adj_dates\<close> raises
  \<open>NoDataAvailableOnExchange\<close> exactly when the effective end is absent or the effective
  start is not before it, and returns the pair (effective start, effective end)
  otherwise. The effective end is absent exactly when no end was requested and no
  asset has an end value for the frequency.
\<close>

theorem get_adj_dates_window:
  assumes "assets \<noteq> []"
  shows "get_adj_dates start end' assets data_frequency =
           (case effective_end end' data_frequency assets of
              None \<Rightarrow> Inl (NoDataAvailableOnExchange (title (exchange (last assets)))
                             [symbol (last assets)] data_frequency)
            | Some e \<Rightarrow>
                if effective_start start assets \<ge> e
                then Inl (NoDataAvailableOnExchange (title (exchange (last assets)))
                            [symbol (last assets)] data_frequency)
                else Inr (effective_start start assets, e))
         \<and> (effective_end end' data_frequency assets = None \<longleftrightarrow>
              end' = None \<and> last_entry_of data_frequency assets = None)"
proof
  from assms have nd: "no_data assets data_frequency =
      NoDataAvailableOnExchange (title (exchange (last assets))) [symbol (last assets)] data_frequency"
    by (cases assets) (simp_all add: no_data_def)
  show "get_adj_dates start end' assets data_frequency =
           (case effective_end end' data_frequency assets of
              None \<Rightarrow> Inl (NoDataAvailableOnExchange (title (exchange (last assets)))
                             [symbol (last assets)] data_frequency)
            | Some e \<Rightarrow>
                if effective_start start assets \<ge> e
                then Inl (NoDataAvailableOnExchange (title (exchange (last assets)))
                            [symbol (last assets)] data_frequency)
                else Inr (effective_start start assets, e))"
    unfolding get_adj_dates_def adj_dates_loop_spec [OF assms] nd
    by (auto simp: effective_start_def effective_end_def Let_def split: option.split)
next
  show "effective_end end' data_frequency assets = None \<longleftrightarrow>
          end' = None \<and> last_entry_of data_frequency assets = None"
    by (simp add: effective_end_def split: option.split)
qed

text \<open>
  The window of two assets, one of them without an end value, with nothing requested.
\<close>

theorem get_adj_dates_window_witness:
  "get_adj_dates None None
     [\<lparr>start_date = (20200101::int), end_minute = None, end_daily = Some 20200601,
       exchange = ''bittrex'', symbol = ''eth_btc''\<rparr>,
      \<lparr>start_date = 20200201, end_minute = None, end_daily = None,
       exchange = ''bittrex'', symbol = ''neo_btc''\<rparr>] ''daily''
   = Inr (20200101, 20200601)"
proof -
  let ?as = "[\<lparr>start_date = (20200101::int), end_minute = None, end_daily = Some 20200601,
               exchange = ''bittrex'', symbol = ''eth_btc''\<rparr>,
              \<lparr>start_date = 20200201, end_minute = None, end_daily = None,
               exchange = ''bittrex'', symbol = ''neo_btc''\<rparr>]"
  have ne: "?as \<noteq> []" by simp
  have e: "effective_end None ''daily'' ?as = Some 20200601"
    by (simp add: effective_end_def last_entry_of_def asset_end_def List.map_filter_def)
  have s: "effective_start None ?as = 20200101"
    by (simp add: effective_start_def earliest_trade_of_def)
  from get_adj_dates_window [OF ne, of None None "''daily''"] e s
  show ?thesis by simp
qed

text \<open>
  C5 as stated fails: no asset has an end value, so the last entry is absent, yet with
  a requested end of 10 the window (1, 10) is returned and nothing is raised.
\<close>

theorem get_adj_dates_no_last_entry_counterexample:
  "last_entry_of ''daily''
     [\<lparr>start_date = (1::int), end_minute = None, end_daily = None,
       exchange = ''bittrex'', symbol = ''eth_btc''\<rparr>] = None
   \<and> get_adj_dates None (Some 10)
       [\<lparr>start_date = (1::int), end_minute = None, end_daily = None,
         exchange = ''bittrex'', symbol = ''eth_btc''\<rparr>] ''daily''
     = Inr (1, 10)"
  by (simp add: last_entry_of_def asset_end_def List.map_filter_def get_adj_dates_def)

subsection \<open>The bounds of a month\<close>

lemma mdays_nth:
  assumes "1 \<le> m" and "m \<le> 12"
  shows "mdays ! nat m = (if m = 2 then 28 else if m \<in> {4, 6, 9, 11} then 30 else 31)"
proof -
  from assms have "m = 1 \<or> m = 2 \<or> m = 3 \<or> m = 4 \<or> m = 5 \<or> m = 6 \<or> m = 7 \<or> m = 8
      \<or> m = 9 \<or> m = 10 \<or> m = 11 \<or> m = 12"
    by arith
  then show ?thesis
    by (elim disjE) (simp_all add: mdays_def)
qed

text \<open>
  C9. For a datetime with a valid year and month, \<open>get_month_start_end\<close> returns day 1
  of that month at 00:00:00 and the final day of that month at 23:59:00, both labelled
  UTC. The final day is 29 or 28 in February, as the year is a leap year of the
  Gregorian calendar or not, 30 in April, June, September and November, and 31 in the
  other months.
\<close>

theorem get_month_start_end_bounds:
  assumes "1 \<le> year d" and "year d \<le> 9999" and "1 \<le> month d" and "month d \<le> 12"
  shows "get_month_start_end d =
           Inr (\<lparr>year = year d, month = month d, day = 1, hour = 0, minute = 0,
                 second = 0, microsecond = 0, tzinfo = Some ''UTC''\<rparr>,
                \<lparr>year = year d, month = month d,
                 day = (if month d = 2
                        then (if year d mod 4 = 0 \<and> (year d mod 100 \<noteq> 0 \<or> year d mod 400 = 0)
                              then 29 else 28)
                        else if month d = 4 \<or> month d = 6 \<or> month d = 9 \<or> month d = 11
                        then 30 else 31),
                 hour = 23, minute = 59, second = 0, microsecond = 0,
                 tzinfo = Some ''UTC''\<rparr>)"
proof -
  define n where "n = mdays ! nat (month d) + (if month d = 2 \<and> isleap (year d) then 1 else 0)"
  have e: "n = (if month d = 2
                then (if year d mod 4 = 0 \<and> (year d mod 100 \<noteq> 0 \<or> year d mod 400 = 0)
                      then 29 else 28)
                else if month d = 4 \<or> month d = 6 \<or> month d = 9 \<or> month d = 11
                then 30 else 31)"
    unfolding n_def using assms(3,4) by (auto simp: mdays_nth isleap_def)
  have r: "28 \<le> n \<and> n \<le> 31"
    unfolding e by simp
  have 1: "monthrange_ndays (year d) (month d) = Inr n"
    using assms(3,4) by (simp add: monthrange_ndays_def n_def)
  have 2: "datetime_new (year d) (month d) 1 0 0 0 0 =
      Inr \<lparr>year = year d, month = month d, day = 1, hour = 0, minute = 0,
           second = 0, microsecond = 0, tzinfo = None\<rparr>"
    using assms r by (simp add: datetime_new_def n_def [symmetric])
  have 3: "datetime_new (year d) (month d) n 23 59 0 0 =
      Inr \<lparr>year = year d, month = month d, day = n, hour = 23, minute = 59,
           second = 0, microsecond = 0, tzinfo = None\<rparr>"
    using assms r by (simp add: datetime_new_def n_def [symmetric])
  have "get_month_start_end d =
      Inr (\<lparr>year = year d, month = month d, day = 1, hour = 0, minute = 0,
            second = 0, microsecond = 0, tzinfo = Some ''UTC''\<rparr>,
           \<lparr>year = year d, month = month d, day = n, hour = 23, minute = 59,
            second = 0, microsecond = 0, tzinfo = Some ''UTC''\<rparr>)"
    by (simp add: get_month_start_end_def 1 2 3 to_datetime_utc_def)
  then show ?thesis
    unfolding e .
qed

text \<open>
  15 February 2021 gives 1 February 00:00:00 and 28 February 23:59:00; 10 February 2024,
  in a leap year, gives 29 February 23:59:00; 30 April 2023 gives 30 April 23:59:00.
\<close>

theorem get_month_start_end_bounds_witness:
  "get_month_start_end \<lparr>year = 2021, month = 2, day = 15, hour = 10, minute = 3, second = 7,
                        microsecond = 0, tzinfo = None\<rparr>
   = Inr (\<lparr>year = 2021, month = 2, day = 1, hour = 0, minute = 0, second = 0,
           microsecond = 0, tzinfo = Some ''UTC''\<rparr>,
          \<lparr>year = 2021, month = 2, day = 28, hour = 23, minute = 59, second = 0,
           microsecond = 0, tzinfo = Some ''UTC''\<rparr>)
   \<and> get_month_start_end \<lparr>year = 2024, month = 2, day = 10, hour = 0, minute = 0, second = 0,
                          microsecond = 0, tzinfo = None\<rparr>
   = Inr (\<lparr>year = 2024, month = 2, day = 1, hour = 0, minute = 0, second = 0,
           microsecond = 0, tzinfo = Some ''UTC''\<rparr>,
          \<lparr>year = 2024, month = 2, day = 29, hour = 23, minute = 59, second = 0,
           microsecond = 0, tzinfo = Some ''UTC''\<rparr>)
   \<and> get_month_start_end \<lparr>year = 2023, month = 4, day = 30, hour = 23, minute = 59, second = 59,
                          microsecond = 0, tzinfo = None\<rparr>
   = Inr (\<lparr>year = 2023, month = 4, day = 1, hour = 0, minute = 0, second = 0,
           microsecond = 0, tzinfo = Some ''UTC''\<rparr>,
          \<lparr>year = 2023, month = 4, day = 30, hour = 23, minute = 59, second = 0,
           microsecond = 0, tzinfo = Some ''UTC''\<rparr>)"
proof -
  let ?a = "\<lparr>year = 2021, month = 2, day = 15, hour = 10, minute = 3, second = 7,
             microsecond = 0, tzinfo = None\<rparr>"
  let ?b = "\<lparr>year = 2024, month = 2, day = 10, hour = 0, minute = 0, second = 0,
             microsecond = 0, tzinfo = None\<rparr>"
  let ?c = "\<lparr>year = 2023, month = 4, day = 30, hour = 23, minute = 59, second = 59,
             microsecond = 0, tzinfo = None\<rparr>"
  have a: "1 \<le> year ?a" "year ?a \<le> 9999" "1 \<le> month ?a" "month ?a \<le> 12"
    by simp_all
  have b: "1 \<le> year ?b" "year ?b \<le> 9999" "1 \<le> month ?b" "month ?b \<le> 12"
    by simp_all
  have c: "1 \<le> year ?c" "year ?c \<le> 9999" "1 \<le> month ?c" "month ?c \<le> 12"
    by simp_all
  from get_month_start_end_bounds [OF a] get_month_start_end_bounds [OF b]
    get_month_start_end_bounds [OF c]
  show ?thesis by simp
qed

end
